theory Spec2Isabelle
  imports Complex_Main "HOL-Library.List_Lexorder" "HOL-Library.Char_ord" "HOL-Library.Multiset"
begin

section \<open>Persisted records and farmer profile (models.py)\<close>

text \<open>
  Class \<open>AgriculturalData\<close>.  A nullable column is an \<open>option\<close>; \<open>data_source\<close>,
  \<open>data_type\<close> and \<open>year\<close> are declared \<open>nullable=False\<close>.  The Float column
  \<open>value\<close> is read as an exact rational (field \<open>val\<close>), the JSON columns hold a
  copy of the ingested dictionary, the timestamps are clock readings.  The
  table is the list of its rows in primary-key order, so the autoincrement
  \<open>id\<close> of a row is its position.
\<close>

record data_record =
  rec_county :: "string option"
  rec_crop_name :: "string option"
  rec_data_type :: "string option"
  rec_year :: "int option"
  rec_value :: "rat option"
  rec_unit :: "string option"
  rec_season :: "string option"

record agricultural_data =
  data_source :: string
  data_type :: string
  county :: "string option"
  crop_name :: "string option"
  season :: "string option"
  year :: int
  val :: "rat option"
  unit :: "string option"
  raw_data :: data_record
  processed_data :: data_record
  created_at :: nat
  updated_at :: nat

text \<open>
  Class \<open>User\<close>, the columns read by the insight code: \<open>county\<close> is
  \<open>nullable=False\<close>, \<open>farm_size\<close> a Float, \<open>farming_experience\<close> an Integer,
  \<open>primary_crops\<close> a JSON text.
\<close>

record user =
  county :: string
  farm_size :: "rat option"
  primary_crops :: "string option"
  farming_experience :: "int option"

section \<open>Productivity tips (ml_service.py, \<open>_generate_productivity_tips\<close>)\<close>

definition small_farm_tips :: "string list" where
  "small_farm_tips =
     [''Consider intensive farming methods to maximize small farm productivity'',
      ''Explore high-value crops like vegetables and herbs for better returns'',
      ''Implement crop rotation to maintain soil fertility'']"

definition large_farm_tips :: "string list" where
  "large_farm_tips =
     [''Consider mechanization to improve efficiency on larger farms'',
      ''Diversify crops to reduce risk and increase income streams'',
      ''Explore contract farming opportunities with agribusiness companies'']"

definition beginner_tips :: "string list" where
  "beginner_tips =
     [''Join local farmer groups to learn from experienced farmers'',
      ''Attend agricultural extension services and training programs'',
      ''Start with proven crops before experimenting with new varieties'']"

definition county_tips :: "(string \<times> string) list" where
  "county_tips =
     [(''Nakuru'', ''Consider dairy farming alongside crop production in this favorable climate''),
      (''Kiambu'', ''Coffee and tea are well-suited for this highland region''),
      (''Meru'', ''Miraa and coffee are traditional crops with good market potential''),
      (''Machakos'', ''Drought-resistant crops like sorghum and millet work well here'')]"

text \<open>
  The body of \<open>_generate_productivity_tips\<close>, one binding per statement: the list
  \<open>tips\<close> is extended in place up to three times and cut by the slice \<open>tips[:5]\<close>.
\<close>

definition generate_productivity_tips :: "user \<Rightarrow> string list" where
  "generate_productivity_tips u =
     (let tips0 = [];
          tips1 = (case farm_size u of
                     None \<Rightarrow> tips0
                   | Some a \<Rightarrow>
                       if a \<noteq> 0 \<and> a < 5 then tips0 @ small_farm_tips
                       else if a \<noteq> 0 \<and> a \<ge> 5 then tips0 @ large_farm_tips
                       else tips0);
          tips2 = (case farming_experience u of
                     None \<Rightarrow> tips1
                   | Some y \<Rightarrow>
                       if y \<noteq> 0 \<and> y < 5 then tips1 @ beginner_tips
                       else tips1);
          tips3 = (case map_of county_tips (county u) of
                     Some t \<Rightarrow> tips2 @ [t]
                   | None \<Rightarrow> tips2)
      in take 5 tips3)"

text \<open>
  The three sources of tips as the specification names them: the farm-size
  tips (threshold 5 acres), the experience tips (threshold 5 years) and the
  county tip of the fixed table.
\<close>

definition size_tips :: "user \<Rightarrow> string list" where
  "size_tips u =
     (case farm_size u of
        None \<Rightarrow> []
      | Some a \<Rightarrow> if a = 0 then [] else if a < 5 then small_farm_tips else large_farm_tips)"

definition experience_tips :: "user \<Rightarrow> string list" where
  "experience_tips u =
     (case farming_experience u of
        None \<Rightarrow> []
      | Some y \<Rightarrow> if y = 0 then [] else if y < 5 then beginner_tips else [])"

definition county_tip :: "user \<Rightarrow> string list" where
  "county_tip u = (case map_of county_tips (county u) of None \<Rightarrow> [] | Some t \<Rightarrow> [t])"

definition farmer_7 :: user where
  "farmer_7 = \<lparr>county = ''Meru'', farm_size = Some 2, primary_crops = None,
               farming_experience = Some 1\<rparr>"

section \<open>Numeric helpers of pandas and Python used by the insight code\<close>

text \<open>
  Floats are read as exact rationals.  \<open>mean\<close> is the arithmetic mean of a
  non-empty group, \<open>median\<close> is \<open>Series.median\<close> (\<open>None\<close> stands for the NaN of
  an empty series), \<open>py_round2\<close> is \<open>round(x, 2)\<close> (ties to even).
\<close>

definition mean :: "rat list \<Rightarrow> rat" where
  "mean xs = sum_list xs / of_nat (length xs)"

definition median :: "rat list \<Rightarrow> rat option" where
  "median xs =
     (let s = sort xs; n = length s
      in if n = 0 then None
         else if odd n then Some (s ! (n div 2))
         else Some ((s ! (n div 2 - 1) + s ! (n div 2)) / 2))"

definition py_round2 :: "rat \<Rightarrow> rat" where
  "py_round2 x =
     (let y = x * 100; f = \<lfloor>y\<rfloor>; d = y - of_int f
      in of_int (if d < 1 / 2 then f else if d > 1 / 2 then f + 1
                 else if even f then f else f + 1) / 100)"

section \<open>Crop recommendations (ml_service.py, \<open>_analyze_crop_performance\<close>)\<close>

text \<open>
  An entry of the recommendation list.  The key \<open>avg_value\<close> is absent from the
  default entry (\<open>None\<close>).
\<close>

record recommendation =
  crop :: string
  reason :: string
  potential_yield :: string
  avg_value :: "rat option"

text \<open>
  The loop that fills \<open>data_list\<close>: a record is kept when
  \<open>record.crop_name and record.value\<close> is true.  Of the four keys of each entry
  only \<open>crop_name\<close> and \<open>value\<close> are read afterwards, so an entry is that pair.
\<close>

definition data_row :: "agricultural_data \<Rightarrow> (string \<times> rat) option" where
  "data_row r =
     (case crop_name r of
        None \<Rightarrow> None
      | Some c \<Rightarrow>
          (case val r of
             None \<Rightarrow> None
           | Some v \<Rightarrow> if c \<noteq> [] \<and> v \<noteq> 0 then Some (c, v) else None))"

definition data_list :: "agricultural_data list \<Rightarrow> (string \<times> rat) list" where
  "data_list county_data = List.map_filter data_row county_data"

text \<open>
  \<open>df.groupby(key)\<close>: the groups come in ascending order of the key, each with
  its values in row order.
\<close>

definition group_keys :: "(string \<times> rat) list \<Rightarrow> string list" where
  "group_keys df = sort (remdups (map fst df))"

definition group_values :: "(string \<times> rat) list \<Rightarrow> string \<Rightarrow> rat list" where
  "group_values df k = map snd (filter (\<lambda>p. fst p = k) df)"

text \<open>
  \<open>groupby('crop_name')['value'].agg(['mean', 'std']).reset_index()\<close>: one row
  per crop.  The column \<open>std\<close> is never read and is left out.
  \<open>sort_values('mean', ascending=False)\<close> orders the rows by falling mean; rows
  of equal mean keep their order here (pandas fixes no order for them).
\<close>

definition crop_performance :: "(string \<times> rat) list \<Rightarrow> (string \<times> rat) list" where
  "crop_performance df = map (\<lambda>k. (k, mean (group_values df k))) (group_keys df)"

definition sort_values_desc :: "(string \<times> rat) list \<Rightarrow> (string \<times> rat) list" where
  "sort_values_desc cp = sort_key (\<lambda>p. - snd p) cp"

definition default_recommendation :: "string \<Rightarrow> recommendation" where
  "default_recommendation tier =
     \<lparr>crop = ''Maize'', reason = ''Staple crop suitable for most Kenyan counties'',
      potential_yield = tier, avg_value = None\<rparr>"

definition yield_tier :: "rat \<Rightarrow> rat option \<Rightarrow> string" where
  "yield_tier m med =
     (case med of None \<Rightarrow> ''Medium'' | Some d \<Rightarrow> if m > d then ''High'' else ''Medium'')"

text \<open>
  \<open>_analyze_crop_performance(county_data, user_crops, county)\<close>.  With typed
  rows nothing in the body raises, so the handler that returns the default
  entry with tier \<open>Medium\<close> is not reached.
\<close>

definition analyze_crop_performance ::
  "agricultural_data list \<Rightarrow> string list \<Rightarrow> string \<Rightarrow> recommendation list" where
  "analyze_crop_performance county_data user_crops cnty =
     (let df = data_list county_data
      in if df = [] then [default_recommendation ''Medium to High'']
         else
           (let cp = sort_values_desc (crop_performance df);
                top_crops = take 3 cp
            in map (\<lambda>row.
                  \<lparr>crop = fst row,
                   reason = ''High average performance in '' @ cnty @ '' county'',
                   potential_yield = yield_tier (snd row) (median (map snd cp)),
                   avg_value = Some (py_round2 (snd row))\<rparr>) top_crops))"

section \<open>Market trends (ml_service.py, \<open>_analyze_market_trends\<close>)\<close>

record price_trend =
  current_price :: rat
  trend :: string

record trends =
  price_trends :: "(string \<times> price_trend) list"
  production_trends :: "(string \<times> price_trend) list"
  seasonal_patterns :: "(string \<times> price_trend) list"

text \<open>
  The rows of \<open>price_df\<close> pass the same test \<open>record.crop_name and record.value\<close>
  as those of \<open>data_list\<close>; \<open>groupby('crop')['price'].last()\<close> takes the last row
  of each group, and the dictionary is kept as the list of its items.
\<close>

definition analyze_market_trends :: "agricultural_data list \<Rightarrow> trends" where
  "analyze_market_trends county_data =
     (let trends0 = \<lparr>price_trends = [], production_trends = [], seasonal_patterns = []\<rparr>;
          price_data = filter (\<lambda>d. data_type d = ''market_prices'') county_data
      in if price_data \<noteq> [] then
           (let price_df = List.map_filter data_row price_data
            in if price_df \<noteq> [] then
                 trends0\<lparr>price_trends :=
                   map (\<lambda>c. (c, \<lparr>current_price = last (group_values price_df c),
                                  trend = ''stable''\<rparr>)) (group_keys price_df)\<rparr>
               else trends0)
         else trends0)"

section \<open>Insights (ml_service.py, \<open>generate_farmer_insights\<close>)\<close>

text \<open>
  The dictionary \<open>insights\<close>; \<open>market_trends\<close> is \<open>None\<close> while it is the empty
  dictionary of the initialisation.
\<close>

record insights =
  crop_recommendations :: "recommendation list"
  market_trends :: "trends option"
  weather_insights :: "(string \<times> string) list"
  productivity_tips :: "string list"

definition empty_insights :: insights where
  "empty_insights =
     \<lparr>crop_recommendations = [], market_trends = None, weather_insights = [],
      productivity_tips = []\<rparr>"

text \<open>
  \<open>json.loads\<close> is a parameter: \<open>None\<close> when it raises.  \<open>load_user_crops\<close> is
  the line \<open>json.loads(user.primary_crops) if user.primary_crops else []\<close>, and
  \<open>county_rows\<close> the query
  \<open>AgriculturalData.query.filter_by(county=user_county).all()\<close>.  An exception
  anywhere in the body is caught and answered with the empty insights.
\<close>

definition load_user_crops :: "(string \<Rightarrow> string list option) \<Rightarrow> user \<Rightarrow> string list option" where
  "load_user_crops json_loads u =
     (case primary_crops u of
        None \<Rightarrow> Some []
      | Some s \<Rightarrow> if s \<noteq> [] then json_loads s else Some [])"

definition county_rows :: "agricultural_data list \<Rightarrow> string \<Rightarrow> agricultural_data list" where
  "county_rows table c = filter (\<lambda>r. agricultural_data.county r = Some c) table"

definition generate_farmer_insights ::
  "(string \<Rightarrow> string list option) \<Rightarrow> agricultural_data list \<Rightarrow> user \<Rightarrow> insights" where
  "generate_farmer_insights json_loads table u =
     (let ins0 = empty_insights;
          user_county = user.county u
      in case load_user_crops json_loads u of
           None \<Rightarrow> empty_insights
         | Some user_crops \<Rightarrow>
             (let county_data = county_rows table user_county;
                  ins1 = (if county_data \<noteq> [] then
                            ins0\<lparr>crop_recommendations :=
                                   analyze_crop_performance county_data user_crops user_county,
                                 market_trends := Some (analyze_market_trends county_data)\<rparr>
                          else ins0)
              in ins1\<lparr>productivity_tips := generate_productivity_tips u\<rparr>))"

section \<open>Notions of the specification about crops and prices\<close>

text \<open>
  A record counts for a crop when it has a non-empty crop name and a value that
  is neither missing nor zero.  \<open>crops\<close> are the names with such a record,
  \<open>crop_mean\<close> is the mean of the values of a crop over all data types, and
  \<open>all_crop_means\<close> lists the mean of every crop once.
\<close>

definition usable :: "agricultural_data \<Rightarrow> bool" where
  "usable r =
     (crop_name r \<noteq> None \<and> crop_name r \<noteq> Some [] \<and> val r \<noteq> None \<and> val r \<noteq> Some 0)"

definition crops :: "agricultural_data list \<Rightarrow> string set" where
  "crops county_data = fst ` set (data_list county_data)"

definition crop_mean :: "agricultural_data list \<Rightarrow> string \<Rightarrow> rat" where
  "crop_mean county_data c = mean (group_values (data_list county_data) c)"

definition all_crop_means :: "agricultural_data list \<Rightarrow> rat list" where
  "all_crop_means county_data =
     map (crop_mean county_data) (group_keys (data_list county_data))"

text \<open>
  The price values of a crop in table order, first as the specification reads
  them (every record of the market-price type), then as the code reads them
  (those among them with a value that is neither missing nor zero).
\<close>

definition is_price :: "agricultural_data \<Rightarrow> bool" where
  "is_price d = (data_type d = ''market_prices'')"

definition inserted_prices :: "agricultural_data list \<Rightarrow> string \<Rightarrow> rat option list" where
  "inserted_prices county_data c =
     map val (filter (\<lambda>d. is_price d \<and> crop_name d = Some c) county_data)"

definition usable_prices :: "agricultural_data list \<Rightarrow> string \<Rightarrow> rat list" where
  "usable_prices county_data c = group_values (data_list (filter is_price county_data)) c"

definition reported_price :: "agricultural_data list \<Rightarrow> string \<Rightarrow> price_trend option" where
  "reported_price county_data c = map_of (price_trends (analyze_market_trends county_data)) c"

section \<open>Ingestion (data_service.py, \<open>_save_agricultural_data\<close>)\<close>

text \<open>
  The only failure of the database that the model keeps: a row flushed with
  NULL in a column declared \<open>nullable=False\<close>.
\<close>

datatype db_error = IntegrityError

text \<open>
  The \<open>filter_by\<close> of the lookup.  A keyword bound to \<open>None\<close> is compared with
  \<open>IS NULL\<close>, so a missing \<open>data_type\<close> or \<open>year\<close> matches no row.
\<close>

definition matches :: "string \<Rightarrow> data_record \<Rightarrow> agricultural_data \<Rightarrow> bool" where
  "matches source r a =
     (data_source a = source \<and> agricultural_data.county a = rec_county r \<and>
      crop_name a = rec_crop_name r \<and> Some (data_type a) = rec_data_type r \<and>
      Some (year a) = rec_year r \<and> season a = rec_season r)"

text \<open>
  An assignment to the attributes of the object that \<open>.first()\<close> returned: the
  first matching row of the session is replaced.
\<close>

fun update_first ::
  "('a \<Rightarrow> bool) \<Rightarrow> ('a \<Rightarrow> 'a) \<Rightarrow> 'a list \<Rightarrow> 'a list" where
  "update_first P f [] = []"
| "update_first P f (a # as) = (if P a then f a # as else a # update_first P f as)"

text \<open>
  One turn of the loop on the rows of the session (the table together with the
  rows added so far, which the autoflush before each query makes visible).
\<close>

definition save_record ::
  "nat \<Rightarrow> string \<Rightarrow> agricultural_data list \<Rightarrow> data_record \<Rightarrow>
   db_error + agricultural_data list" where
  "save_record now source session r =
     (case find (matches source r) session of
        None \<Rightarrow>
          (case rec_data_type r of
             None \<Rightarrow> Inl IntegrityError
           | Some dt \<Rightarrow>
               (case rec_year r of
                  None \<Rightarrow> Inl IntegrityError
                | Some y \<Rightarrow>
                    Inr (session @
                      [\<lparr>data_source = source, data_type = dt, county = rec_county r,
                        crop_name = rec_crop_name r, season = rec_season r, year = y,
                        val = rec_value r, unit = rec_unit r, raw_data = r,
                        processed_data = r, created_at = now, updated_at = now\<rparr>])))
      | Some existing \<Rightarrow>
          Inr (update_first (matches source r)
                 (\<lambda>e. e\<lparr>val := rec_value r, updated_at := now, processed_data := r\<rparr>)
                 session))"

text \<open>
  \<open>_save_agricultural_data(data_records, source)\<close>: the loop and the commit.
  \<open>Inl\<close> is the exception that is raised again after the rollback, which leaves
  the table as it was; \<open>Inr\<close> is the committed table.
\<close>

fun save_agricultural_data ::
  "nat \<Rightarrow> agricultural_data list \<Rightarrow> data_record list \<Rightarrow> string \<Rightarrow>
   db_error + agricultural_data list" where
  "save_agricultural_data now session [] source = Inr session"
| "save_agricultural_data now session (r # rs) source =
     (case save_record now source session r of
        Inl e \<Rightarrow> Inl e
      | Inr session' \<Rightarrow> save_agricultural_data now session' rs source)"

text \<open>
  The identity of a persisted record in the specification, and the columns of
  a row that an update leaves alone.
\<close>

definition key_of ::
  "agricultural_data \<Rightarrow> string \<times> string option \<times> string option \<times> string \<times> int \<times> string option" where
  "key_of a =
     (data_source a, agricultural_data.county a, crop_name a, data_type a, year a, season a)"

definition kept_columns :: "agricultural_data \<Rightarrow> string option \<times> data_record \<times> nat" where
  "kept_columns a = (unit a, raw_data a, created_at a)"

text \<open>
  What a save leaves behind for its batch.  Two records of a batch name the
  same row when they agree on the five key fields; the record that counts for
  a row is the last one of the batch that names it.  \<open>holds_batch\<close> says of a
  table that, for every record of the batch, the row found by the lookup of
  the code carries the value and the processed payload of the record that
  counts, and the time of the save as its update time.
\<close>

definition rec_key ::
  "data_record \<Rightarrow> string option \<times> string option \<times> string option \<times> int option \<times> string option" where
  "rec_key r = (rec_county r, rec_crop_name r, rec_data_type r, rec_year r, rec_season r)"

definition latest_record :: "data_record list \<Rightarrow> data_record \<Rightarrow> data_record" where
  "latest_record batch r = last (filter (\<lambda>x. rec_key x = rec_key r) batch)"

definition holds_batch ::
  "nat \<Rightarrow> string \<Rightarrow> data_record list \<Rightarrow> agricultural_data list \<Rightarrow> bool" where
  "holds_batch now source batch table =
     list_all
       (\<lambda>r. case find (matches source r) table of
               None \<Rightarrow> False
             | Some a \<Rightarrow>
                 val a = rec_value (latest_record batch r) \<and>
                 processed_data a = latest_record batch r \<and> updated_at a = now)
       batch"

section \<open>Data frames (pandas)\<close>

text \<open>
  A \<open>DataFrame\<close> as the cleaning code uses it: the row labels and the labelled
  columns in their order.  A column of a numeric dtype holds numbers, with
  \<open>None\<close> for NaN; a column of dtype \<open>object\<close> holds strings, with \<open>None\<close> for
  a missing value.  The number of rows is the length of the index, and in a
  frame built by pandas every column has that length.  The code reads a column
  by its label, which is modelled for frames whose labels are all different.
\<close>

datatype column = Numeric "rat option list" | Object "string option list"

record dataframe =
  index :: "nat list"
  columns :: "(string \<times> column) list"

definition nrows :: "dataframe \<Rightarrow> nat" where
  "nrows df = length (index df)"

fun col_length :: "column \<Rightarrow> nat" where
  "col_length (Numeric vs) = length vs"
| "col_length (Object vs) = length vs"

fun is_numeric :: "column \<Rightarrow> bool" where
  "is_numeric (Numeric vs) = True"
| "is_numeric (Object vs) = False"

definition labels :: "dataframe \<Rightarrow> string list" where
  "labels df = map fst (columns df)"

definition unique_labels :: "dataframe \<Rightarrow> bool" where
  "unique_labels df = distinct (labels df)"

definition well_shaped :: "dataframe \<Rightarrow> bool" where
  "well_shaped df = list_all (\<lambda>c. col_length (snd c) = nrows df) (columns df)"

text \<open>
  \<open>df[name]\<close>, the assignment \<open>df[name] = c\<close> to an existing label,
  \<open>select_dtypes(include=[np.number]).columns\<close> and
  \<open>select_dtypes(include=['object']).columns\<close>.
\<close>

definition get_col :: "dataframe \<Rightarrow> string \<Rightarrow> column option" where
  "get_col df name = map_of (columns df) name"

definition set_col :: "string \<Rightarrow> column \<Rightarrow> dataframe \<Rightarrow> dataframe" where
  "set_col name c df =
     df\<lparr>columns := map (\<lambda>p. if fst p = name then (name, c) else p) (columns df)\<rparr>"

definition numeric_cols :: "dataframe \<Rightarrow> string list" where
  "numeric_cols df = map fst (filter (\<lambda>p. is_numeric (snd p)) (columns df))"

definition categorical_cols :: "dataframe \<Rightarrow> string list" where
  "categorical_cols df = map fst (filter (\<lambda>p. \<not> is_numeric (snd p)) (columns df))"

text \<open>
  The values of a series that are not missing, and \<open>fillna\<close>.
\<close>

definition dropna :: "'a option list \<Rightarrow> 'a list" where
  "dropna vs = List.map_filter (\<lambda>v. v) vs"

definition fillna :: "'a option \<Rightarrow> 'a option list \<Rightarrow> 'a option list" where
  "fillna fill vs = map (\<lambda>v. case v of None \<Rightarrow> fill | Some x \<Rightarrow> Some x) vs"

text \<open>
  \<open>Series.mode()\<close>: the most frequent values among the present ones, in
  ascending order; empty when nothing is present.
\<close>

definition mode :: "string list \<Rightarrow> string list" where
  "mode xs =
     (let ks = sort (remdups xs);
          best = fold max (map (\<lambda>k. count_list xs k) ks) 0
      in filter (\<lambda>k. count_list xs k = best) ks)"

text \<open>
  Selection by a boolean mask, \<open>df[mask]\<close>: the rows whose mask entry is true.
\<close>

definition keep :: "bool list \<Rightarrow> 'a list \<Rightarrow> 'a list" where
  "keep sel vs = map snd (filter fst (zip sel vs))"

fun keep_col :: "bool list \<Rightarrow> column \<Rightarrow> column" where
  "keep_col sel (Numeric vs) = Numeric (keep sel vs)"
| "keep_col sel (Object vs) = Object (keep sel vs)"

definition select_rows :: "bool list \<Rightarrow> dataframe \<Rightarrow> dataframe" where
  "select_rows sel df =
     \<lparr>index = keep sel (index df),
      columns = map (\<lambda>p. (fst p, keep_col sel (snd p))) (columns df)\<rparr>"

section \<open>Record normalizer (ml_service.py, \<open>_handle_missing_values\<close> and \<open>_standardize_columns\<close>)\<close>

definition fill_numeric :: "string \<Rightarrow> dataframe \<Rightarrow> dataframe" where
  "fill_numeric col df =
     (case get_col df col of
        Some (Numeric vs) \<Rightarrow> set_col col (Numeric (fillna (median (dropna vs)) vs)) df
      | _ \<Rightarrow> df)"

definition fill_categorical :: "string \<Rightarrow> dataframe \<Rightarrow> dataframe" where
  "fill_categorical col df =
     (case get_col df col of
        Some (Object vs) \<Rightarrow>
          if vs \<noteq> [] then
            (case mode (dropna vs) of
               [] \<Rightarrow> df
             | m # ms \<Rightarrow> set_col col (Object (fillna (Some m) vs)) df)
          else df
      | _ \<Rightarrow> df)"

definition handle_missing_values :: "dataframe \<Rightarrow> dataframe" where
  "handle_missing_values df =
     (let df1 = fold fill_numeric (numeric_cols df) df
      in fold fill_categorical (categorical_cols df1) df1)"

definition column_mapping :: "(string \<times> string) list" where
  "column_mapping =
     [(''County'', ''county''), (''COUNTY'', ''county''),
      (''Crop'', ''crop_name''), (''CROP'', ''crop_name''),
      (''Production'', ''production_tonnes''), (''PRODUCTION'', ''production_tonnes''),
      (''Area'', ''area_hectares''), (''AREA'', ''area_hectares''),
      (''Year'', ''year''), (''YEAR'', ''year''),
      (''Price'', ''price_kes''), (''PRICE'', ''price_kes''),
      (''Season'', ''season''), (''SEASON'', ''season'')]"

definition rename_column :: "string \<times> string \<Rightarrow> dataframe \<Rightarrow> dataframe" where
  "rename_column m df =
     (if fst m \<in> set (labels df)
      then df\<lparr>columns := map (\<lambda>p. (if fst p = fst m then snd m else fst p, snd p)) (columns df)\<rparr>
      else df)"

definition standardize_columns :: "dataframe \<Rightarrow> dataframe" where
  "standardize_columns df = fold rename_column column_mapping df"

section \<open>Outlier filter (ml_service.py, \<open>_remove_outliers\<close>)\<close>

text \<open>
  \<open>Series.quantile(q)\<close> with linear interpolation over the sorted present
  values; NaN (\<open>None\<close>) when nothing is present.
\<close>

definition quantile :: "rat \<Rightarrow> rat option list \<Rightarrow> rat option" where
  "quantile q vs =
     (let s = sort (dropna vs); n = length s
      in if n = 0 then None
         else
           (let pos = q * of_nat (n - 1);
                lo = nat \<lfloor>pos\<rfloor>;
                hi = min (lo + 1) (n - 1);
                frac = pos - of_nat lo
            in Some (s ! lo + frac * (s ! hi - s ! lo))))"

text \<open>
  The pair \<open>(lower_bound, upper_bound)\<close> of a column, NaN when the quantiles
  are, and the mask \<open>(df[col] >= lower_bound) & (df[col] <= upper_bound)\<close>: a
  comparison with NaN on either side is false.
\<close>

definition iqr_bounds :: "rat option list \<Rightarrow> (rat \<times> rat) option" where
  "iqr_bounds vs =
     (case quantile (1 / 4) vs of
        None \<Rightarrow> None
      | Some Q1 \<Rightarrow>
          (case quantile (3 / 4) vs of
             None \<Rightarrow> None
           | Some Q3 \<Rightarrow>
               (let IQR = Q3 - Q1
                in Some (Q1 - 3 / 2 * IQR, Q3 + 3 / 2 * IQR))))"

definition within_bounds :: "(rat \<times> rat) option \<Rightarrow> rat option \<Rightarrow> bool" where
  "within_bounds b v =
     (case b of
        None \<Rightarrow> False
      | Some (lower_bound, upper_bound) \<Rightarrow>
          (case v of None \<Rightarrow> False | Some x \<Rightarrow> x \<ge> lower_bound \<and> x \<le> upper_bound))"

text \<open>
  One turn of the loop over \<open>numeric_cols\<close>.  The label was taken from the
  numeric columns of the frame, and selecting rows keeps labels and dtypes, so
  the column is found and numeric.
\<close>

definition outlier_step :: "string \<Rightarrow> dataframe \<Rightarrow> dataframe" where
  "outlier_step col df =
     (case get_col df col of
        Some (Numeric vs) \<Rightarrow>
          if vs \<noteq> [] then select_rows (map (within_bounds (iqr_bounds vs)) vs) df else df
      | _ \<Rightarrow> df)"

definition remove_outliers :: "dataframe \<Rightarrow> dataframe" where
  "remove_outliers df = fold outlier_step (numeric_cols df) df"

section \<open>Validity filter (ml_service.py, \<open>_validate_data\<close>)\<close>

text \<open>
  Comparing a column of dtype \<open>object\<close> with a number raises \<open>TypeError\<close> at the
  first string; a missing value compares false.
\<close>

datatype py_error = TypeError

definition filter_column :: "string \<Rightarrow> (rat \<Rightarrow> bool) \<Rightarrow> dataframe \<Rightarrow> py_error + dataframe" where
  "filter_column col P df =
     (case get_col df col of
        None \<Rightarrow> Inr df
      | Some (Numeric vs) \<Rightarrow>
          Inr (select_rows (map (\<lambda>v. case v of None \<Rightarrow> False | Some x \<Rightarrow> P x) vs) df)
      | Some (Object vs) \<Rightarrow>
          if dropna vs \<noteq> [] then Inl TypeError
          else Inr (select_rows (map (\<lambda>v. False) vs) df))"

definition validate_data :: "int \<Rightarrow> dataframe \<Rightarrow> py_error + dataframe" where
  "validate_data current_year df =
     (case filter_column ''year'' (\<lambda>y. y \<ge> 1960 \<and> y \<le> of_int current_year) df of
        Inl e \<Rightarrow> Inl e
      | Inr df1 \<Rightarrow>
          (case filter_column ''production_tonnes'' (\<lambda>p. p \<ge> 0) df1 of
             Inl e \<Rightarrow> Inl e
           | Inr df2 \<Rightarrow> filter_column ''area_hectares'' (\<lambda>a. a \<ge> 0) df2))"

text \<open>
  What the properties say of a column: every entry is a number that satisfies
  \<open>P\<close>.  A column of dtype \<open>object\<close> holds no number, so it satisfies this only
  when it has no rows.
\<close>

fun col_all :: "(rat \<Rightarrow> bool) \<Rightarrow> column \<Rightarrow> bool" where
  "col_all P (Numeric vs) = list_all (\<lambda>v. case v of None \<Rightarrow> False | Some x \<Rightarrow> P x) vs"
| "col_all P (Object vs) = (vs = [])"

definition in_range :: "rat \<Rightarrow> rat \<Rightarrow> rat \<Rightarrow> bool" where
  "in_range lower upper x = (lower \<le> x \<and> x \<le> upper)"

section \<open>Yield estimator (ml_service.py, \<open>predict_crop_yield\<close>)\<close>










text \<open>
  No row is lost between the frames \<open>df\<close> and \<open>d\<close>: the same index, the same
  number of columns, every column as long as the index.
\<close>

definition same_rows :: "dataframe \<Rightarrow> dataframe \<Rightarrow> bool" where
  "same_rows df d =
     (index d = index df \<and> well_shaped d \<and> length (columns d) = length (columns df))"

section \<open>Example data\<close>

definition no_payload :: data_record where
  "no_payload =
     \<lparr>rec_county = None, rec_crop_name = None, rec_data_type = None, rec_year = None,
      rec_value = None, rec_unit = None, rec_season = None\<rparr>"

definition sample_row :: "string \<Rightarrow> string \<Rightarrow> string \<Rightarrow> rat \<Rightarrow> agricultural_data" where
  "sample_row cnty c dt v =
     \<lparr>data_source = ''KilimoSTAT'', data_type = dt, county = Some cnty, crop_name = Some c,
      season = Some ''Long_Rains'', year = 2023, val = Some v, unit = None,
      raw_data = no_payload, processed_data = no_payload, created_at = 0, updated_at = 0\<rparr>"

definition nakuru_batch :: "agricultural_data list" where
  "nakuru_batch =
     [sample_row ''Nakuru'' ''Maize'' ''crop_production'' 40000,
      sample_row ''Nakuru'' ''Beans'' ''crop_production'' 12000]"

definition meru_zero_batch :: "agricultural_data list" where
  "meru_zero_batch =
     [sample_row ''Meru'' ''Maize'' ''crop_production'' 0,
      sample_row ''Meru'' ''Tea'' ''market_prices'' 0]"

definition maize_prices :: "agricultural_data list" where
  "maize_prices =
     [sample_row ''Nakuru'' ''Maize'' ''market_prices'' 50,
      sample_row ''Nakuru'' ''Maize'' ''market_prices'' 0]"

definition parse_no_crops :: "string \<Rightarrow> string list option" where
  "parse_no_crops s = Some []"

definition maize_record :: "rat \<Rightarrow> data_record" where
  "maize_record v =
     \<lparr>rec_county = Some ''Nakuru'', rec_crop_name = Some ''Maize'',
      rec_data_type = Some ''crop_production'', rec_year = Some 2023, rec_value = Some v,
      rec_unit = Some ''tonnes'', rec_season = Some ''Long_Rains''\<rparr>"

definition beans_record :: data_record where
  "beans_record =
     \<lparr>rec_county = Some ''Nakuru'', rec_crop_name = Some ''Beans'',
      rec_data_type = Some ''crop_production'', rec_year = Some 2023, rec_value = Some 12000,
      rec_unit = Some ''tonnes'', rec_season = Some ''Long_Rains''\<rparr>"

definition repeat_batch :: "data_record list" where
  "repeat_batch = [maize_record 40000, beans_record, maize_record 5]"

definition two_column_frame :: dataframe where
  "two_column_frame =
     \<lparr>index = [0, 1, 2, 3, 4],
      columns =
        [(''a'', Numeric [Some 0, Some 0, Some 0, Some 0, Some 100]),
         (''b'', Numeric [Some 0, Some 0, Some 1, Some 3, Some 0])]\<rparr>"

definition raw_frame :: dataframe where
  "raw_frame =
     \<lparr>index = [0, 1, 2, 3],
      columns =
        [(''County'', Object [Some ''Nakuru'', None, Some ''Nakuru'', Some ''Meru'']),
         (''year'', Numeric [Some 2023, Some 1950, None, Some 2022]),
         (''Production'', Numeric [Some 40000, Some 10, Some (- 5), None])]\<rparr>"

definition normalized_frame :: dataframe where
  "normalized_frame =
     \<lparr>index = [0, 1, 2, 3, 4],
      columns =
        [(''county'', Object [Some ''Nakuru'', Some ''Nakuru'', Some ''Meru'', Some ''Meru'', None]),
         (''year'', Numeric [Some 2023, Some 1950, Some 2022, Some 2022, Some 2021]),
         (''production_tonnes'', Numeric [Some 40000, Some 10, Some (- 5), Some 7, Some 0]),
         (''area_hectares'', Numeric [Some 5, Some 3, Some 2, Some (- 1), Some 4])]\<rparr>"

definition validated_frame :: dataframe where
  "validated_frame =
     \<lparr>index = [0, 4],
      columns =
        [(''county'', Object [Some ''Nakuru'', None]),
         (''year'', Numeric [Some 2023, Some 2021]),
         (''production_tonnes'', Numeric [Some 40000, Some 0]),
         (''area_hectares'', Numeric [Some 5, Some 4])]\<rparr>"




definition stored_table :: "agricultural_data list" where
  "stored_table =
     [sample_row ''Meru'' ''Tea'' ''market_prices'' 7,
      sample_row ''Nakuru'' ''Maize'' ''crop_production'' 1]"

section \<open>Properties of the productivity tips\<close>

text \<open>
  Claim C8.  For every farmer profile the list of productivity tips has at most
  five elements, and it is the first five elements of the farm-size tips
  (threshold 5 acres) followed by the experience tips (threshold 5 years)
  followed by the county tip of the fixed table: the tips come in that fixed
  order, and the cut to five removes from the end.
\<close>

theorem productivity_tips_order:
  "length (generate_productivity_tips u) \<le> 5 \<and>
   generate_productivity_tips u = take 5 (size_tips u @ experience_tips u @ county_tip u)"
  by (auto simp: generate_productivity_tips_def size_tips_def experience_tips_def
      county_tip_def Let_def split: option.splits)

text \<open>
  A small farm in Meru run by a beginner: seven tips are collected, the three
  farm-size tips and the first two experience tips are returned.
\<close>

theorem productivity_tips_order_witness:
  "length (generate_productivity_tips farmer_7) \<le> 5 \<and>
   generate_productivity_tips farmer_7 = small_farm_tips @ take 2 beginner_tips"
  using productivity_tips_order [of farmer_7]
  by (simp add: size_tips_def experience_tips_def county_tip_def farmer_7_def
      small_farm_tips_def beginner_tips_def county_tips_def)

section \<open>Properties of the crop recommendations\<close>

lemma data_row_None_iff: "data_row r = None \<longleftrightarrow> \<not> usable r"
  by (auto simp: data_row_def usable_def split: option.splits)

lemma data_list_filter_usable: "data_list (filter usable cd) = data_list cd"
  by (induction cd) (auto simp: data_list_def data_row_None_iff [symmetric] List.map_filter_simps split: option.splits)

lemma data_list_Nil_iff: "data_list cd = [] \<longleftrightarrow> (\<forall>r \<in> set cd. \<not> usable r)"
  by (induction cd) (auto simp: data_list_def data_row_None_iff [symmetric] List.map_filter_simps split: option.splits)
















section \<open>Records without a value or a crop name\<close>

lemma crop_mean_filter_usable: "crop_mean (filter usable cd) c = crop_mean cd c"
  by (simp add: crop_mean_def data_list_filter_usable)

lemma fallback_when_unusable:
  "\<forall>r \<in> set cd. \<not> usable r \<Longrightarrow>
     analyze_crop_performance cd uc cnty = [default_recommendation ''Medium to High'']"
  by (simp add: analyze_crop_performance_def data_list_Nil_iff [symmetric])

lemma insights_recs:
  "load_user_crops jl u = Some uc \<Longrightarrow> county_rows table (user.county u) \<noteq> [] \<Longrightarrow>
   crop_recommendations (generate_farmer_insights jl table u) =
     analyze_crop_performance (county_rows table (user.county u)) uc (user.county u)"
  by (simp add: generate_farmer_insights_def Let_def)

text \<open>
  Claim C10.  The crop performance aggregation ignores every county record
  whose value is zero or missing and every record whose crop name is empty:
  dropping these records changes neither the recommendations, nor the set of
  crops, nor any crop mean, nor the list of means whose median sets the tier.
  County records that all carry the value 0 give the single default Maize
  recommendation, from \<open>_analyze_crop_performance\<close> and, when the crop list of
  the profile parses, from \<open>generate_farmer_insights\<close>.
\<close>

theorem zero_valued_records_ignored:
  "analyze_crop_performance cd uc cnty = analyze_crop_performance (filter usable cd) uc cnty \<and>
   crops (filter usable cd) = crops cd \<and>
   crop_mean (filter usable cd) c = crop_mean cd c \<and>
   all_crop_means (filter usable cd) = all_crop_means cd \<and>
   ((\<forall>r \<in> set cd. val r = Some 0) \<longrightarrow>
      analyze_crop_performance cd uc cnty = [default_recommendation ''Medium to High'']) \<and>
   (load_user_crops jl u \<noteq> None \<and> county_rows table (user.county u) \<noteq> [] \<and>
    (\<forall>r \<in> set (county_rows table (user.county u)). val r = Some 0) \<longrightarrow>
      crop_recommendations (generate_farmer_insights jl table u) =
        [default_recommendation ''Medium to High''])"
proof (intro conjI impI)
  show "analyze_crop_performance cd uc cnty = analyze_crop_performance (filter usable cd) uc cnty"
    by (simp add: analyze_crop_performance_def data_list_filter_usable)
  show "crops (filter usable cd) = crops cd"
    by (simp add: crops_def data_list_filter_usable)
  show "crop_mean (filter usable cd) c = crop_mean cd c"
    by (rule crop_mean_filter_usable)
  show "all_crop_means (filter usable cd) = all_crop_means cd"
    by (simp add: all_crop_means_def data_list_filter_usable crop_mean_def)
next
  assume "\<forall>r \<in> set cd. val r = Some 0"
  then have "\<forall>r \<in> set cd. \<not> usable r" by (simp add: usable_def)
  then show "analyze_crop_performance cd uc cnty = [default_recommendation ''Medium to High'']"
    by (rule fallback_when_unusable)
next
  assume a: "load_user_crops jl u \<noteq> None \<and> county_rows table (user.county u) \<noteq> [] \<and>
    (\<forall>r \<in> set (county_rows table (user.county u)). val r = Some 0)"
  then obtain ucs where ucs: "load_user_crops jl u = Some ucs" by blast
  from a have "\<forall>r \<in> set (county_rows table (user.county u)). \<not> usable r"
    by (simp add: usable_def)
  then show "crop_recommendations (generate_farmer_insights jl table u) =
        [default_recommendation ''Medium to High'']"
    using a by (simp add: insights_recs [OF ucs] fallback_when_unusable)
qed

text \<open>
  A farmer in Meru, where both persisted rows carry the value 0.
\<close>

theorem zero_valued_records_ignored_witness:
  "list_all (\<lambda>r. val r = Some 0) meru_zero_batch \<and>
   load_user_crops parse_no_crops farmer_7 \<noteq> None \<and>
   county_rows (nakuru_batch @ meru_zero_batch) (user.county farmer_7) \<noteq> [] \<and>
   list_all (\<lambda>r. val r = Some 0)
     (county_rows (nakuru_batch @ meru_zero_batch) (user.county farmer_7)) \<and>
   analyze_crop_performance meru_zero_batch [] ''Meru'' = [default_recommendation ''Medium to High''] \<and>
   crop_recommendations (generate_farmer_insights parse_no_crops (nakuru_batch @ meru_zero_batch) farmer_7) =
     [default_recommendation ''Medium to High'']"
proof -
  have h1: "\<forall>r \<in> set meru_zero_batch. val r = Some 0"
    by (simp add: meru_zero_batch_def sample_row_def)
  have h2: "load_user_crops parse_no_crops farmer_7 \<noteq> None"
    by (simp add: load_user_crops_def farmer_7_def)
  have rows: "county_rows (nakuru_batch @ meru_zero_batch) (user.county farmer_7) = meru_zero_batch"
    by (simp add: county_rows_def nakuru_batch_def meru_zero_batch_def sample_row_def farmer_7_def)
  have ne: "meru_zero_batch \<noteq> []" by (simp add: meru_zero_batch_def)
  note t = zero_valued_records_ignored [of meru_zero_batch "[]" "''Meru''" "''Maize''" parse_no_crops farmer_7 "nakuru_batch @ meru_zero_batch"]
  from t h1 have a: "analyze_crop_performance meru_zero_batch [] ''Meru'' = [default_recommendation ''Medium to High'']"
    by blast
  have h1': "\<forall>r \<in> set (county_rows (nakuru_batch @ meru_zero_batch) (user.county farmer_7)). val r = Some 0"
    using h1 rows by simp
  have ne': "county_rows (nakuru_batch @ meru_zero_batch) (user.county farmer_7) \<noteq> []"
    using ne rows by simp
  from t h2 ne' h1' have b: "crop_recommendations (generate_farmer_insights parse_no_crops (nakuru_batch @ meru_zero_batch) farmer_7) =
     [default_recommendation ''Medium to High'']"
    by blast
  from h1 h2 ne' h1' a b show ?thesis by (simp add: list_all_iff)
qed

section \<open>A county without persisted rows\<close>

text \<open>
  Claim C1, as stated, fails: the table holds rows of Nakuru only, the farmer
  lives in Meru, and the list of recommendations is empty, not the single
  Maize entry.
\<close>

theorem insights_empty_county_counterexample:
  "county_rows nakuru_batch (user.county farmer_7) = [] \<and>
   crop_recommendations (generate_farmer_insights parse_no_crops nakuru_batch farmer_7) = []"
  by (simp add: county_rows_def nakuru_batch_def sample_row_def farmer_7_def
      generate_farmer_insights_def load_user_crops_def empty_insights_def Let_def)

text \<open>
  Claim C1, amended.  For every farmer profile whose county has no persisted
  rows, \<open>generate_farmer_insights\<close> returns an empty list of crop
  recommendations (and no market trends).  The single Maize entry, with tier
  \<open>Medium to High\<close> and a non-empty reason, is returned when the county has
  rows, none of them has both a crop name and a non-zero value, and the crop
  list of the profile parses.
\<close>

theorem insights_without_county_rows:
  "(county_rows table (user.county u) = [] \<longrightarrow>
      crop_recommendations (generate_farmer_insights jl table u) = [] \<and>
      market_trends (generate_farmer_insights jl table u) = None) \<and>
   (county_rows table (user.county u) \<noteq> [] \<and> load_user_crops jl u \<noteq> None \<and>
    (\<forall>r \<in> set (county_rows table (user.county u)). \<not> usable r) \<longrightarrow>
      (\<exists>e. crop_recommendations (generate_farmer_insights jl table u) = [e] \<and>
           crop e = ''Maize'' \<and> potential_yield e = ''Medium to High'' \<and> reason e \<noteq> []))"
proof (rule conjI; rule impI)
  assume "county_rows table (user.county u) = []"
  then show "crop_recommendations (generate_farmer_insights jl table u) = [] \<and>
      market_trends (generate_farmer_insights jl table u) = None"
    by (simp add: generate_farmer_insights_def Let_def empty_insights_def split: option.splits)
next
  assume a: "county_rows table (user.county u) \<noteq> [] \<and> load_user_crops jl u \<noteq> None \<and>
    (\<forall>r \<in> set (county_rows table (user.county u)). \<not> usable r)"
  then obtain ucs where ucs: "load_user_crops jl u = Some ucs" by blast
  from a have "crop_recommendations (generate_farmer_insights jl table u) =
        [default_recommendation ''Medium to High'']"
    by (simp add: insights_recs [OF ucs] fallback_when_unusable)
  then show "\<exists>e. crop_recommendations (generate_farmer_insights jl table u) = [e] \<and>
           crop e = ''Maize'' \<and> potential_yield e = ''Medium to High'' \<and> reason e \<noteq> []"
    by (simp add: default_recommendation_def)
qed

theorem insights_without_county_rows_witness:
  "county_rows nakuru_batch (user.county farmer_7) = [] \<and>
   crop_recommendations (generate_farmer_insights parse_no_crops nakuru_batch farmer_7) = [] \<and>
   county_rows meru_zero_batch (user.county farmer_7) \<noteq> [] \<and>
   load_user_crops parse_no_crops farmer_7 \<noteq> None \<and>
   list_all (\<lambda>r. \<not> usable r) (county_rows meru_zero_batch (user.county farmer_7)) \<and>
   map crop (crop_recommendations (generate_farmer_insights parse_no_crops meru_zero_batch farmer_7)) = [''Maize'']"
proof -
  have r1: "county_rows nakuru_batch (user.county farmer_7) = []"
    by (simp add: county_rows_def nakuru_batch_def sample_row_def farmer_7_def)
  have r2: "county_rows meru_zero_batch (user.county farmer_7) = meru_zero_batch"
    by (simp add: county_rows_def meru_zero_batch_def sample_row_def farmer_7_def)
  have h2: "load_user_crops parse_no_crops farmer_7 \<noteq> None"
    by (simp add: load_user_crops_def farmer_7_def)
  have h3: "\<forall>r \<in> set meru_zero_batch. \<not> usable r"
    by (simp add: meru_zero_batch_def sample_row_def usable_def)
  have ne: "meru_zero_batch \<noteq> []" by (simp add: meru_zero_batch_def)
  note a = insights_without_county_rows [of nakuru_batch farmer_7 parse_no_crops, THEN conjunct1, rule_format, OF r1]
  have pre: "county_rows meru_zero_batch (user.county farmer_7) \<noteq> [] \<and>
      load_user_crops parse_no_crops farmer_7 \<noteq> None \<and>
      (\<forall>r \<in> set (county_rows meru_zero_batch (user.county farmer_7)). \<not> usable r)"
    using r2 h2 h3 ne by simp
  note b = insights_without_county_rows [of meru_zero_batch farmer_7 parse_no_crops, THEN conjunct2, rule_format, OF pre]
  from b have "map crop (crop_recommendations (generate_farmer_insights parse_no_crops meru_zero_batch farmer_7)) = [''Maize'']"
    by auto
  with a r1 pre show ?thesis by (simp add: list_all_iff)
qed

section \<open>Properties of the market trends\<close>

lemma map_of_tabulate:
  "map_of (map (\<lambda>k. (k, f k)) ks) c = (if c \<in> set ks then Some (f c) else None)"
  by (induction ks) auto

lemma group_values_Nil_iff: "group_values df c = [] \<longleftrightarrow> c \<notin> set (group_keys df)"
  by (auto simp: group_values_def group_keys_def filter_empty_conv)

text \<open>
  Claim C9, as stated, fails: of two market-price records of Maize the one
  inserted last has the price 0, and the reported current price is 50, the
  price of the earlier record.
\<close>

theorem market_latest_price_counterexample:
  "last (inserted_prices maize_prices ''Maize'') = Some 0 \<and>
   reported_price maize_prices ''Maize'' = Some \<lparr>current_price = 50, trend = ''stable''\<rparr>"
  by code_simp

text \<open>
  Claim C9, amended.  Market trend extraction considers only the records of
  the market-price type.  A crop has an entry exactly when one of these
  records carries its name with a price that is neither missing nor zero;
  its current price is then the price of the last inserted such record, and
  its trend tag is the constant \<open>stable\<close>.
\<close>

theorem market_trends_latest_usable_price:
  "analyze_market_trends cd = analyze_market_trends (filter is_price cd) \<and>
   reported_price cd c =
     (if usable_prices cd c = [] then None
      else Some \<lparr>current_price = last (usable_prices cd c), trend = ''stable''\<rparr>)"
proof
  have eq: "(\<lambda>d. data_type d = ''market_prices'') = is_price"
    by (rule ext) (simp add: is_price_def)
  show "analyze_market_trends cd = analyze_market_trends (filter is_price cd)"
    unfolding analyze_market_trends_def eq by simp
next
  have eq: "(\<lambda>d. data_type d = ''market_prices'') = is_price"
    by (rule ext) (simp add: is_price_def)
  define pd where "pd = filter is_price cd"
  have pdf: "List.map_filter data_row pd = data_list pd" by (simp add: data_list_def)
  have pd_nil: "pd = [] \<Longrightarrow> data_list pd = []" by (simp add: data_list_def List.map_filter_simps)
  show "reported_price cd c =
     (if usable_prices cd c = [] then None
      else Some \<lparr>current_price = last (usable_prices cd c), trend = ''stable''\<rparr>)"
  proof (cases "data_list pd = []")
    case True
    then have "reported_price cd c = None"
      unfolding reported_price_def analyze_market_trends_def eq pd_def [symmetric]
      by (simp add: Let_def data_list_def)
    moreover from True have "usable_prices cd c = []"
      by (simp add: usable_prices_def pd_def group_values_def)
    ultimately show ?thesis by simp
  next
    case False
    then have "pd \<noteq> []" using pd_nil by blast
    with False have "price_trends (analyze_market_trends cd) =
        map (\<lambda>k. (k, \<lparr>current_price = last (group_values (data_list pd) k), trend = ''stable''\<rparr>))
          (group_keys (data_list pd))"
      unfolding analyze_market_trends_def eq pd_def [symmetric]
      by (simp add: Let_def data_list_def)
    then show ?thesis
      by (simp add: reported_price_def map_of_tabulate usable_prices_def pd_def [symmetric]
          group_values_Nil_iff)
  qed
qed

section \<open>Properties of the ingestion\<close>

lemma matches_cong_key: "key_of a = key_of b \<Longrightarrow> matches src r a = matches src r b"
  by (auto simp: matches_def key_of_def)

lemma update_first_length: "length (update_first P f xs) = length xs"
  by (induction xs) auto

lemma update_first_map:
  "(\<And>x. g (f x) = g x) \<Longrightarrow> map g (update_first P f xs) = map g xs"
  by (induction xs) auto

lemma save_record_present:
  assumes "\<exists>a \<in> set s. matches src r a"
  shows "\<exists>s'. save_record now src s r = Inr s' \<and> map key_of s' = map key_of s \<and>
           map kept_columns s' = map kept_columns s"
proof -
  from assms obtain e where "find (matches src r) s = Some e"
    by (cases "find (matches src r) s") (auto simp: find_None_iff)
  then show ?thesis
    by (simp add: save_record_def update_first_map key_of_def kept_columns_def)
qed

lemma save_record_keys:
  assumes "save_record now src s r = Inr s'"
  shows "(\<exists>a \<in> set s'. matches src r a) \<and> set (map key_of s) \<subseteq> set (map key_of s') \<and>
         (distinct (map key_of s) \<longrightarrow> distinct (map key_of s'))"
proof (cases "find (matches src r) s")
  case None
  then have nomatch: "\<forall>x \<in> set s. \<not> matches src r x" by (simp add: find_None_iff)
  from assms None obtain dt y where dy: "rec_data_type r = Some dt" "rec_year r = Some y"
    by (auto simp: save_record_def split: option.splits)
  define n where "n = \<lparr>data_source = src, data_type = dt, county = rec_county r,
                        crop_name = rec_crop_name r, season = rec_season r, year = y,
                        val = rec_value r, unit = rec_unit r, raw_data = r,
                        processed_data = r, created_at = now, updated_at = now\<rparr>"
  from assms None dy have s': "s' = s @ [n]" by (simp add: save_record_def n_def)
  have mn: "matches src r n" by (simp add: matches_def n_def dy)
  have "key_of n \<notin> set (map key_of s)"
  proof
    assume "key_of n \<in> set (map key_of s)"
    then obtain a where "a \<in> set s" "key_of a = key_of n" by auto
    then have "matches src r a" using mn matches_cong_key by blast
    with nomatch \<open>a \<in> set s\<close> show False by blast
  qed
  with mn show ?thesis by (auto simp: s')
next
  case (Some e)
  then have ex: "\<exists>a \<in> set s. matches src r a"
    by (auto simp: find_Some_iff)
  from save_record_present [OF ex, of now] assms
  have k: "map key_of s' = map key_of s" by auto
  from ex obtain a where a: "a \<in> set s" "matches src r a" by blast
  then have "key_of a \<in> set (map key_of s')" by (simp add: k)
  then obtain b where "b \<in> set s'" "key_of b = key_of a" by auto
  then have "\<exists>b \<in> set s'. matches src r b" using a(2) matches_cong_key by blast
  then show ?thesis by (simp add: k)
qed

lemma match_by_keys:
  "set (map key_of s) \<subseteq> set (map key_of s') \<Longrightarrow> \<exists>a \<in> set s. matches src r a \<Longrightarrow>
   \<exists>b \<in> set s'. matches src r b"
proof -
  assume sub: "set (map key_of s) \<subseteq> set (map key_of s')" and "\<exists>a \<in> set s. matches src r a"
  then obtain a where a: "a \<in> set s" "matches src r a" by blast
  then have "key_of a \<in> set (map key_of s')" using sub by auto
  then obtain b where "b \<in> set s'" "key_of b = key_of a" by auto
  then show ?thesis using a(2) matches_cong_key by blast
qed

lemma save_all_keys:
  "save_agricultural_data now s rs src = Inr s' \<Longrightarrow>
     (\<forall>r \<in> set rs. \<exists>a \<in> set s'. matches src r a) \<and> set (map key_of s) \<subseteq> set (map key_of s') \<and>
     (distinct (map key_of s) \<longrightarrow> distinct (map key_of s'))"
proof (induction rs arbitrary: s)
  case Nil
  then show ?case by simp
next
  case (Cons r rs)
  from Cons.prems obtain s1 where s1: "save_record now src s r = Inr s1"
    and rest: "save_agricultural_data now s1 rs src = Inr s'"
    by (auto split: sum.splits)
  note k1 = save_record_keys [OF s1]
  note k2 = Cons.IH [OF rest]
  from k1 k2 have m: "\<exists>a \<in> set s'. matches src r a"
    using match_by_keys [of s1 s' src r] by blast
  from k2 have ms: "\<forall>x \<in> set rs. \<exists>a \<in> set s'. matches src x a" by blast
  from k1 k2 have sub: "set (map key_of s) \<subseteq> set (map key_of s')" by blast
  from k1 k2 have d: "distinct (map key_of s) \<longrightarrow> distinct (map key_of s')" by blast
  from m ms sub d show ?case by simp
qed

lemma save_all_present:
  "\<forall>r \<in> set rs. \<exists>a \<in> set s. matches src r a \<Longrightarrow>
   \<exists>s'. save_agricultural_data now s rs src = Inr s' \<and> map key_of s' = map key_of s \<and>
        map kept_columns s' = map kept_columns s"
proof (induction rs arbitrary: s)
  case Nil
  then show ?case by simp
next
  case (Cons r rs)
  then have "\<exists>a \<in> set s. matches src r a" by simp
  from save_record_present [OF this, of now] obtain s1 where
    s1: "save_record now src s r = Inr s1" "map key_of s1 = map key_of s"
        "map kept_columns s1 = map kept_columns s" by blast
  have "\<forall>r \<in> set rs. \<exists>a \<in> set s1. matches src r a"
  proof
    fix x assume "x \<in> set rs"
    with Cons.prems have "\<exists>a \<in> set s. matches src x a" by simp
    then show "\<exists>a \<in> set s1. matches src x a"
      using match_by_keys [of s s1 src x] s1(2) by simp
  qed
  from Cons.IH [OF this] s1 show ?case by auto
qed

lemma matches_same_key: "rec_key x = rec_key r \<Longrightarrow> matches src x = matches src r"
  by (rule ext) (simp add: matches_def rec_key_def)

lemma matches_both_key: "matches src x a \<Longrightarrow> matches src r a \<Longrightarrow> rec_key x = rec_key r"
  by (auto simp: matches_def rec_key_def)

lemma find_update_first_same:
  "(\<And>a. P (f a) = P a) \<Longrightarrow> find P (update_first P f xs) = map_option f (find P xs)"
  by (induction xs) auto

lemma find_update_first_other:
  "(\<And>a. P a \<Longrightarrow> \<not> Q a) \<Longrightarrow> (\<And>a. Q (f a) = Q a) \<Longrightarrow>
   find Q (update_first P f xs) = find Q xs"
  by (induction xs) auto

lemma find_append_new:
  "find P (xs @ [n]) = (case find P xs of Some a \<Rightarrow> Some a | None \<Rightarrow> if P n then Some n else None)"
  by (induction xs) auto

lemma update_first_keeps:
  "a \<in> set xs \<Longrightarrow> \<not> P a \<Longrightarrow> a \<in> set (update_first P f xs)"
  by (induction xs) auto

lemma matches_update:
  "matches src r (e\<lparr>val := v, updated_at := t, processed_data := p\<rparr>) = matches src r e"
  by (simp add: matches_def)

lemma save_record_own:
  assumes "save_record now src s r = Inr s'"
  shows "\<exists>a. find (matches src r) s' = Some a \<and> val a = rec_value r \<and>
             processed_data a = r \<and> updated_at a = now"
proof (cases "find (matches src r) s")
  case None
  from assms None obtain dt y where dy: "rec_data_type r = Some dt" "rec_year r = Some y"
    by (auto simp: save_record_def split: option.splits)
  define n where "n = \<lparr>data_source = src, data_type = dt, county = rec_county r,
                        crop_name = rec_crop_name r, season = rec_season r, year = y,
                        val = rec_value r, unit = rec_unit r, raw_data = r,
                        processed_data = r, created_at = now, updated_at = now\<rparr>"
  from assms None dy have s': "s' = s @ [n]" by (simp add: save_record_def n_def)
  have mn: "matches src r n" by (simp add: matches_def n_def dy)
  from None mn have "find (matches src r) s' = Some n" by (simp add: s' find_append_new)
  then show ?thesis by (simp add: n_def)
next
  case (Some e)
  with assms have s': "s' = update_first (matches src r)
      (\<lambda>e. e\<lparr>val := rec_value r, updated_at := now, processed_data := r\<rparr>) s"
    by (simp add: save_record_def)
  have "find (matches src r) s' =
      map_option (\<lambda>e. e\<lparr>val := rec_value r, updated_at := now, processed_data := r\<rparr>)
        (find (matches src r) s)"
    unfolding s' by (rule find_update_first_same) (simp add: matches_update)
  with Some show ?thesis by simp
qed

lemma save_record_other:
  assumes "save_record now src s x = Inr s'" and "rec_key x \<noteq> rec_key r"
  shows "find (matches src r) s' = find (matches src r) s"
proof (cases "find (matches src x) s")
  case None
  from assms(1) None obtain dt y where dy: "rec_data_type x = Some dt" "rec_year x = Some y"
    by (auto simp: save_record_def split: option.splits)
  define n where "n = \<lparr>data_source = src, data_type = dt, county = rec_county x,
                        crop_name = rec_crop_name x, season = rec_season x, year = y,
                        val = rec_value x, unit = rec_unit x, raw_data = x,
                        processed_data = x, created_at = now, updated_at = now\<rparr>"
  from assms(1) None dy have s': "s' = s @ [n]" by (simp add: save_record_def n_def)
  have mn: "matches src x n" by (simp add: matches_def n_def dy)
  with assms(2) have "\<not> matches src r n" using matches_both_key by blast
  then show ?thesis by (simp add: s' find_append_new split: option.splits)
next
  case (Some e)
  with assms(1) have s': "s' = update_first (matches src x)
      (\<lambda>e. e\<lparr>val := rec_value x, updated_at := now, processed_data := x\<rparr>) s"
    by (simp add: save_record_def)
  show ?thesis
    unfolding s'
  proof (rule find_update_first_other)
    fix a assume "matches src x a"
    with assms(2) show "\<not> matches src r a" using matches_both_key by blast
  next
    fix a show "matches src r (a\<lparr>val := rec_value x, updated_at := now, processed_data := x\<rparr>) =
        matches src r a" by (rule matches_update)
  qed
qed

lemma save_others:
  "save_agricultural_data now s rs src = Inr s' \<Longrightarrow> \<forall>x \<in> set rs. rec_key x \<noteq> rec_key r \<Longrightarrow>
   find (matches src r) s' = find (matches src r) s"
proof (induction rs arbitrary: s)
  case Nil
  then show ?case by simp
next
  case (Cons x rs)
  from Cons.prems(1) obtain s1 where s1: "save_record now src s x = Inr s1"
    and rest: "save_agricultural_data now s1 rs src = Inr s'"
    by (auto split: sum.splits)
  from Cons.prems(2) have "rec_key x \<noteq> rec_key r" by simp
  from save_record_other [OF s1 this] have "find (matches src r) s1 = find (matches src r) s" .
  moreover from Cons.IH [OF rest] Cons.prems(2)
  have "find (matches src r) s' = find (matches src r) s1" by simp
  ultimately show ?case by simp
qed

lemma latest_record_Cons:
  "latest_record (x # rs) r =
     (if filter (\<lambda>y. rec_key y = rec_key r) rs = [] then x else latest_record rs r)"
  if "rec_key x = rec_key r \<or> filter (\<lambda>y. rec_key y = rec_key r) rs \<noteq> []"
  using that by (auto simp: latest_record_def)

lemma save_holds_batch:
  "save_agricultural_data now s rs src = Inr s' \<Longrightarrow> holds_batch now src rs s'"
proof (induction rs arbitrary: s)
  case Nil
  then show ?case by (simp add: holds_batch_def)
next
  case (Cons x rs)
  from Cons.prems obtain s1 where s1: "save_record now src s x = Inr s1"
    and rest: "save_agricultural_data now s1 rs src = Inr s'"
    by (auto split: sum.splits)
  from Cons.IH [OF rest] have ih: "holds_batch now src rs s'" .
  have goal: "\<exists>a. find (matches src r) s' = Some a \<and> val a = rec_value (latest_record (x # rs) r) \<and>
      processed_data a = latest_record (x # rs) r \<and> updated_at a = now"
    if r: "r \<in> set (x # rs)" for r
  proof (cases "filter (\<lambda>y. rec_key y = rec_key r) rs = []")
    case True
    then have nokey: "\<forall>y \<in> set rs. rec_key y \<noteq> rec_key r" by (auto simp: filter_empty_conv)
    with r have rx: "r = x" by auto
    then have lat: "latest_record (x # rs) r = x" using True by (simp add: latest_record_def)
    from save_others [OF rest nokey] have "find (matches src r) s' = find (matches src r) s1" .
    with save_record_own [OF s1] rx lat show ?thesis by simp
  next
    case False
    then obtain y where y: "y \<in> set rs" "rec_key y = rec_key r"
      by (auto simp: filter_empty_conv)
    have lat: "latest_record (x # rs) r = latest_record rs y"
      using False y(2) by (simp add: latest_record_def)
    from ih y(1) obtain a where "find (matches src y) s' = Some a"
      "val a = rec_value (latest_record rs y)" "processed_data a = latest_record rs y"
      "updated_at a = now"
      by (auto simp: holds_batch_def list_all_iff split: option.splits)
    with matches_same_key [OF y(2), of src] lat show ?thesis by simp
  qed
  show ?case
    unfolding holds_batch_def list_all_iff
  proof
    fix r assume "r \<in> set (x # rs)"
    from goal [OF this] show "case find (matches src r) s' of None \<Rightarrow> False
      | Some a \<Rightarrow> val a = rec_value (latest_record (x # rs) r) \<and>
          processed_data a = latest_record (x # rs) r \<and> updated_at a = now"
      by auto
  qed
qed

lemma save_record_untouched:
  assumes "save_record now src s r = Inr s'" and "a \<in> set s" and "\<not> matches src r a"
  shows "a \<in> set s'"
  using assms
  by (auto simp: save_record_def update_first_keeps split: option.splits)

lemma save_untouched:
  "save_agricultural_data now s rs src = Inr s' \<Longrightarrow> a \<in> set s \<Longrightarrow>
   \<forall>r \<in> set rs. \<not> matches src r a \<Longrightarrow> a \<in> set s'"
proof (induction rs arbitrary: s)
  case Nil
  then show ?case by simp
next
  case (Cons x rs)
  from Cons.prems(1) obtain s1 where s1: "save_record now src s x = Inr s1"
    and rest: "save_agricultural_data now s1 rs src = Inr s'"
    by (auto split: sum.splits)
  from Cons.prems have "a \<in> set s1" using save_record_untouched [OF s1] by simp
  from Cons.IH [OF rest this] Cons.prems(3) show ?case by simp
qed

text \<open>
  Claim C5.  Ingestion is idempotent with respect to the persisted row count:
  when saving a batch succeeds, saving the same batch again succeeds and leaves
  the table with the same number of rows, the same key tuple
  (source, county, crop name, data type, year, season) in every row and the
  columns other than value, processed payload and update time unchanged: the
  second save inserts nothing.  It updates: after it (as after the first save)
  the row of every record of the batch carries the value and the processed
  payload of the last record of the batch with that key, and the time of that
  save as its update time, while a row that no record of the batch names is
  still in the table as it was.  A table with at most one row per key tuple
  keeps that property through both saves.
\<close>

theorem save_twice_same_row_count:
  assumes "save_agricultural_data t1 table batch source = Inr table1"
  shows "\<exists>table2. save_agricultural_data t2 table1 batch source = Inr table2 \<and>
           length table2 = length table1 \<and>
           map key_of table2 = map key_of table1 \<and>
           map kept_columns table2 = map kept_columns table1 \<and>
           (distinct (map key_of table) \<longrightarrow>
              distinct (map key_of table1) \<and> distinct (map key_of table2)) \<and>
           holds_batch t1 source batch table1 \<and>
           holds_batch t2 source batch table2 \<and>
           (\<forall>a \<in> set table1. (\<forall>r \<in> set batch. \<not> matches source r a) \<longrightarrow> a \<in> set table2)"
proof -
  note k = save_all_keys [OF assms]
  then have "\<forall>r \<in> set batch. \<exists>a \<in> set table1. matches source r a" by blast
  from save_all_present [OF this, of t2] obtain table2 where
    t2: "save_agricultural_data t2 table1 batch source = Inr table2"
        "map key_of table2 = map key_of table1"
        "map kept_columns table2 = map kept_columns table1" by blast
  from t2(2) have len: "length table2 = length table1" by (rule map_eq_imp_length_eq)
  have h1: "holds_batch t1 source batch table1" using assms by (rule save_holds_batch)
  have h2: "holds_batch t2 source batch table2" using t2(1) by (rule save_holds_batch)
  have un: "\<forall>a \<in> set table1. (\<forall>r \<in> set batch. \<not> matches source r a) \<longrightarrow> a \<in> set table2"
    using save_untouched [OF t2(1)] by blast
  from t2 k len h1 h2 un show ?thesis by simp
qed

text \<open>
  A table with a Tea row and an old Maize row of value 1, and a batch that
  names the Maize key twice (values 40000 and 5) and adds Beans: three rows
  after the first save and three after the second; the Maize row carries the
  value 5 and the payload of the last Maize record, the second save moves the
  update time of the Maize and Beans rows to its own, and the Tea row is
  untouched.
\<close>

theorem save_twice_same_row_count_witness:
  "\<exists>table1 table2.
     save_agricultural_data 1 stored_table repeat_batch ''KilimoSTAT'' = Inr table1 \<and>
     save_agricultural_data 2 table1 repeat_batch ''KilimoSTAT'' = Inr table2 \<and>
     length table1 = 3 \<and> length table2 = 3 \<and> distinct (map key_of table2) \<and>
     map val table1 = [Some 7, Some 5, Some 12000] \<and>
     map updated_at table1 = [0, 1, 1] \<and>
     map val table2 = [Some 7, Some 5, Some 12000] \<and>
     map updated_at table2 = [0, 2, 2] \<and>
     map processed_data table2 = [no_payload, maize_record 5, beans_record] \<and>
     holds_batch 2 ''KilimoSTAT'' repeat_batch table2 \<and>
     sample_row ''Meru'' ''Tea'' ''market_prices'' 7 \<in> set table2"
proof -
  let ?tea = "sample_row ''Meru'' ''Tea'' ''market_prices'' 7"
  obtain table1 where t1: "save_agricultural_data 1 stored_table repeat_batch ''KilimoSTAT'' = Inr table1"
    and l1: "length table1 = 3"
    and v1: "map val table1 = [Some 7, Some 5, Some 12000]"
    and u1: "map updated_at table1 = [0, 1, 1]"
    and tea1: "?tea \<in> set table1"
    by (simp add: stored_table_def repeat_batch_def save_record_def matches_def maize_record_def
        beans_record_def sample_row_def)
  have d0: "distinct (map key_of stored_table)"
    by (simp add: stored_table_def sample_row_def key_of_def)
  have nm: "\<forall>r \<in> set repeat_batch. \<not> matches ''KilimoSTAT'' r ?tea"
    by (simp add: repeat_batch_def matches_def maize_record_def beans_record_def sample_row_def)
  from save_twice_same_row_count [OF t1, of 2] obtain table2 where
    t2: "save_agricultural_data 2 table1 repeat_batch ''KilimoSTAT'' = Inr table2"
    and l2: "length table2 = length table1"
    and d: "distinct (map key_of stored_table) \<longrightarrow>
              distinct (map key_of table1) \<and> distinct (map key_of table2)"
    and h2: "holds_batch 2 ''KilimoSTAT'' repeat_batch table2"
    and un: "\<forall>a \<in> set table1. (\<forall>r \<in> set repeat_batch. \<not> matches ''KilimoSTAT'' r a) \<longrightarrow> a \<in> set table2"
    by blast
  from d d0 have d2: "distinct (map key_of table2)" by simp
  from un tea1 nm have tea2: "?tea \<in> set table2" by blast
  have ev: "(case save_agricultural_data 1 stored_table repeat_batch ''KilimoSTAT'' of
               Inl e \<Rightarrow> None
             | Inr a \<Rightarrow>
                 (case save_agricultural_data 2 a repeat_batch ''KilimoSTAT'' of
                    Inl e \<Rightarrow> None
                  | Inr b \<Rightarrow> Some (map val b, map updated_at b, map processed_data b))) =
            Some ([Some 7, Some 5, Some 12000], [0, 2, 2], [no_payload, maize_record 5, beans_record])"
    by (simp add: stored_table_def repeat_batch_def save_record_def matches_def maize_record_def
        beans_record_def sample_row_def)
  from ev t1 t2 have v2: "map val table2 = [Some 7, Some 5, Some 12000]"
    and u2: "map updated_at table2 = [0, 2, 2]"
    and p2: "map processed_data table2 = [no_payload, maize_record 5, beans_record]"
    by simp_all
  from t1 t2 l1 l2 d2 v1 u1 v2 u2 p2 h2 tea2 show ?thesis by auto
qed

section \<open>Properties of the validity filter\<close>

lemma keep_map_self: "keep (map f vs) vs = filter f vs"
  by (induction vs) (auto simp: keep_def)

lemma set_keep: "set (keep sel vs) \<subseteq> set vs"
  unfolding keep_def by (auto dest: set_zip_rightD)

lemma length_keep_le: "length (keep sel vs) \<le> length vs"
proof -
  have "length (filter fst (zip sel vs)) \<le> length (zip sel vs)" by (rule length_filter_le)
  then show ?thesis by (simp add: keep_def)
qed

lemma length_keep_eq:
  "length vs = length sel \<Longrightarrow> length (keep sel vs) = length (filter id sel)"
proof (induction sel arbitrary: vs)
  case Nil
  then show ?case by (simp add: keep_def)
next
  case (Cons b sel)
  then obtain v vs' where "vs = v # vs'" by (cases vs) auto
  with Cons show ?case by (simp add: keep_def)
qed

lemma col_all_keep: "col_all P c \<Longrightarrow> col_all P (keep_col sel c)"
proof (cases c)
  case (Numeric vs)
  assume "col_all P c"
  with Numeric show ?thesis using set_keep [of sel vs] by (auto simp: list_all_iff)
next
  case (Object vs)
  assume "col_all P c"
  with Object show ?thesis by (simp add: keep_def)
qed

lemma labels_select_rows: "labels (select_rows sel df) = labels df"
  by (simp add: labels_def select_rows_def comp_def)

lemma get_col_select_rows:
  "get_col (select_rows sel df) name = map_option (keep_col sel) (get_col df name)"
proof -
  have "map_of (map (\<lambda>p. (fst p, keep_col sel (snd p))) xs) name =
        map_option (keep_col sel) (map_of xs name)" for xs :: "(string \<times> column) list"
    by (induction xs) auto
  then show ?thesis by (simp add: get_col_def select_rows_def)
qed

lemma numeric_cols_select_rows: "numeric_cols (select_rows sel df) = numeric_cols df"
proof -
  have n: "is_numeric (keep_col sel c) = is_numeric c" for c by (cases c) auto
  show ?thesis
    by (simp add: numeric_cols_def select_rows_def filter_map comp_def n)
qed

lemma filter_column_props:
  assumes "filter_column col P df = Inr d"
  shows "labels d = labels df"
    and "\<And>c. get_col d col = Some c \<Longrightarrow> col_all P c"
    and "\<And>name c Q. get_col d name = Some c \<Longrightarrow> \<exists>c0. get_col df name = Some c0 \<and> (col_all Q c0 \<longrightarrow> col_all Q c)"
proof -
  consider (a) "d = df" "get_col df col = None"
    | (b) vs where "d = select_rows (map (\<lambda>v. case v of None \<Rightarrow> False | Some x \<Rightarrow> P x) vs) df"
        "get_col df col = Some (Numeric vs)"
    | (c) vs where "d = select_rows (map (\<lambda>v. False) vs) df" "get_col df col = Some (Object vs)"
  proof (cases "get_col df col")
    case None
    with assms have "d = df" by (simp add: filter_column_def)
    then show ?thesis using None by (rule a)
  next
    case (Some c0)
    show ?thesis
    proof (cases c0)
      case (Numeric vs)
      with Some assms
      have "d = select_rows (map (\<lambda>v. case v of None \<Rightarrow> False | Some x \<Rightarrow> P x) vs) df"
        by (simp add: filter_column_def)
      moreover from Some Numeric have "get_col df col = Some (Numeric vs)" by simp
      ultimately show ?thesis by (rule b)
    next
      case (Object vs)
      with Some assms have "d = select_rows (map (\<lambda>v. False) vs) df"
        by (simp add: filter_column_def split: if_splits)
      moreover from Some Object have "get_col df col = Some (Object vs)" by simp
      ultimately show ?thesis by (rule c)
    qed
  qed
  note cases3 = this
  show "labels d = labels df"
    using cases3 by cases (simp_all add: labels_select_rows)
  show "col_all P c" if "get_col d col = Some c" for c
    using cases3
  proof cases
    case a
    with that show ?thesis by simp
  next
    case (b vs)
    with that have "c = Numeric (filter (\<lambda>v. case v of None \<Rightarrow> False | Some x \<Rightarrow> P x) vs)"
      by (simp add: get_col_select_rows keep_map_self)
    then show ?thesis by (simp add: list_all_iff)
  next
    case (c vs)
    with that have "c = Object (filter (\<lambda>v. False) vs)"
      by (simp add: get_col_select_rows keep_map_self)
    then show ?thesis by simp
  qed
  show "\<exists>c0. get_col df name = Some c0 \<and> (col_all Q c0 \<longrightarrow> col_all Q c)"
    if "get_col d name = Some c" for name c Q
    using cases3
  proof cases
    case a
    with that show ?thesis by simp
  next
    case (b vs)
    with that show ?thesis by (auto simp: get_col_select_rows col_all_keep)
  next
    case (c vs)
    with that show ?thesis by (auto simp: get_col_select_rows col_all_keep)
  qed
qed

text \<open>
  Claim C3.  For every input batch (a frame with unique labels) on which the
  validity filter returns, the frame that remains has the columns of the input
  and, when the column is present, every remaining \<open>year\<close> is a number with
  \<open>1960 \<le> year \<le> current_year\<close>, every remaining \<open>production_tonnes\<close> is a
  number \<open>\<ge> 0\<close> and every remaining \<open>area_hectares\<close> is a number \<open>\<ge> 0\<close>.
\<close>

theorem validate_data_rows_valid:
  assumes "unique_labels df" and "validate_data current_year df = Inr out"
  shows "labels out = labels df \<and>
         (\<forall>c. get_col out ''year'' = Some c \<longrightarrow> col_all (in_range 1960 (of_int current_year)) c) \<and>
         (\<forall>c. get_col out ''production_tonnes'' = Some c \<longrightarrow> col_all (\<lambda>p. p \<ge> 0) c) \<and>
         (\<forall>c. get_col out ''area_hectares'' = Some c \<longrightarrow> col_all (\<lambda>a. a \<ge> 0) c)"
proof -
  let ?Y = "\<lambda>y. y \<ge> 1960 \<and> y \<le> of_int current_year"
  have Y: "in_range 1960 (of_int current_year) = ?Y" by (rule ext) (simp add: in_range_def)
  from assms(2) obtain d1 d2 where
    s1: "filter_column ''year'' ?Y df = Inr d1" and
    s2: "filter_column ''production_tonnes'' (\<lambda>p. p \<ge> 0) d1 = Inr d2" and
    s3: "filter_column ''area_hectares'' (\<lambda>a. a \<ge> 0) d2 = Inr out"
    by (auto simp: validate_data_def split: sum.splits)
  note p1 = filter_column_props [OF s1]
  note p2 = filter_column_props [OF s2]
  note p3 = filter_column_props [OF s3]
  have l: "labels out = labels df" by (simp add: p1(1) p2(1) p3(1))
  have y: "col_all ?Y c" if c: "get_col out ''year'' = Some c" for c
  proof -
    from p3(3) [OF c, of ?Y] obtain c2 where c2: "get_col d2 ''year'' = Some c2"
      "col_all ?Y c2 \<longrightarrow> col_all ?Y c" by blast
    from p2(3) [OF c2(1), of ?Y] obtain c1 where c1: "get_col d1 ''year'' = Some c1"
      "col_all ?Y c1 \<longrightarrow> col_all ?Y c2" by blast
    from p1(2) [OF c1(1)] c1(2) c2(2) show ?thesis by blast
  qed
  have p: "col_all (\<lambda>p. p \<ge> 0) c" if c: "get_col out ''production_tonnes'' = Some c" for c
  proof -
    from p3(3) [OF c, of "\<lambda>p. p \<ge> 0"] obtain c2 where c2: "get_col d2 ''production_tonnes'' = Some c2"
      "col_all (\<lambda>p. p \<ge> 0) c2 \<longrightarrow> col_all (\<lambda>p. p \<ge> 0) c" by blast
    from p2(2) [OF c2(1)] c2(2) show ?thesis by blast
  qed
  have a: "col_all (\<lambda>a. a \<ge> 0) c" if c: "get_col out ''area_hectares'' = Some c" for c
    using p3(2) [OF c] .
  from l y p a show ?thesis unfolding Y by blast
qed

text \<open>
  Five rows, of which one has a year before 1960, one a negative production
  and one a negative area: the first and the last row remain.
\<close>

theorem validate_data_rows_valid_witness:
  "unique_labels normalized_frame \<and>
   validate_data 2026 normalized_frame = Inr validated_frame \<and>
   labels validated_frame = labels normalized_frame \<and>
   col_all (in_range 1960 2026) (Numeric [Some 2023, Some 2021]) \<and>
   col_all (\<lambda>p. p \<ge> 0) (Numeric [Some 40000, Some 0]) \<and>
   col_all (\<lambda>a. a \<ge> 0) (Numeric [Some 5, Some 4])"
proof -
  have u: "unique_labels normalized_frame" by code_simp
  have v: "validate_data 2026 normalized_frame = Inr validated_frame" by code_simp
  have y: "get_col validated_frame ''year'' = Some (Numeric [Some 2023, Some 2021])" by code_simp
  have p: "get_col validated_frame ''production_tonnes'' = Some (Numeric [Some 40000, Some 0])" by code_simp
  have a: "get_col validated_frame ''area_hectares'' = Some (Numeric [Some 5, Some 4])" by code_simp
  from validate_data_rows_valid [OF u v] y p a u v show ?thesis by simp
qed

section \<open>Properties of the outlier filter\<close>

lemma numeric_col_lookup:
  assumes "unique_labels df" and "col \<in> set (numeric_cols df)"
  shows "\<exists>vs. get_col df col = Some (Numeric vs)"
proof -
  from assms(2) obtain c where c: "(col, c) \<in> set (columns df)" "is_numeric c"
    by (auto simp: numeric_cols_def)
  from assms(1) c(1) have "get_col df col = Some c"
    by (simp add: unique_labels_def labels_def get_col_def)
  with c(2) show ?thesis by (cases c) auto
qed

lemma outlier_step_other:
  assumes "get_col df name = Some c0"
  shows "\<exists>c1. get_col (outlier_step col df) name = Some c1 \<and>
           (col_all Q c0 \<longrightarrow> col_all Q c1) \<and> is_numeric c1 = is_numeric c0"
proof -
  have n: "is_numeric (keep_col sel c) = is_numeric c" for sel c by (cases c) auto
  have "outlier_step col df = df \<or> (\<exists>sel. outlier_step col df = select_rows sel df)"
    by (auto simp: outlier_step_def split: option.splits column.splits)
  then show ?thesis
    using assms by (auto simp: get_col_select_rows col_all_keep n)
qed

lemma fold_outlier_step_other:
  "get_col df name = Some c0 \<Longrightarrow>
   \<exists>c1. get_col (fold outlier_step cols df) name = Some c1 \<and>
        (col_all Q c0 \<longrightarrow> col_all Q c1) \<and> is_numeric c1 = is_numeric c0"
proof (induction cols arbitrary: df c0)
  case Nil
  then show ?case by simp
next
  case (Cons col cols)
  from outlier_step_other [OF Cons.prems, of col Q] obtain c1 where
    c1: "get_col (outlier_step col df) name = Some c1" "col_all Q c0 \<longrightarrow> col_all Q c1"
        "is_numeric c1 = is_numeric c0" by blast
  from Cons.IH [OF c1(1)] obtain c2 where
    "get_col (fold outlier_step cols (outlier_step col df)) name = Some c2"
    "col_all Q c1 \<longrightarrow> col_all Q c2" "is_numeric c2 = is_numeric c1" by blast
  with c1 show ?case by auto
qed

lemma outlier_step_own:
  assumes "get_col df col = Some (Numeric vs)"
  shows "\<exists>c1. get_col (outlier_step col df) col = Some c1 \<and>
           col_all (\<lambda>x. within_bounds (iqr_bounds vs) (Some x)) c1"
proof (cases "vs = []")
  case True
  with assms show ?thesis by (simp add: outlier_step_def)
next
  case False
  with assms have "get_col (outlier_step col df) col =
      Some (Numeric (filter (within_bounds (iqr_bounds vs)) vs))"
    by (simp add: outlier_step_def get_col_select_rows keep_map_self)
  moreover have "list_all (\<lambda>v. case v of None \<Rightarrow> False | Some x \<Rightarrow> within_bounds (iqr_bounds vs) (Some x))
      (filter (within_bounds (iqr_bounds vs)) vs)"
    by (auto simp: list_all_iff within_bounds_def split: option.splits)
  ultimately show ?thesis by simp
qed

text \<open>
  Claim C2, as stated, fails.  In the frame below the first column removes the
  last row; the second column \<open>b\<close> then keeps the value 3, which lies above the
  upper bound \<open>5 / 2\<close> computed on \<open>b\<close> over the batch before any removal.
\<close>

theorem remove_outliers_prefilter_counterexample:
  "get_col two_column_frame ''b'' = Some (Numeric [Some 0, Some 0, Some 1, Some 3, Some 0]) \<and>
   iqr_bounds [Some 0, Some 0, Some 1, Some 3, Some 0] = Some (- 3 / 2, 5 / 2) \<and>
   get_col (remove_outliers two_column_frame) ''b'' = Some (Numeric [Some 0, Some 0, Some 1, Some 3]) \<and>
   \<not> within_bounds (Some (- 3 / 2, 5 / 2)) (Some 3)"
  by code_simp

text \<open>
  Claim C2, amended.  For every input batch (a frame with unique labels) and
  every numeric column, every row remaining after the outlier filter has that
  column's value within \<open>[Q1 - 1.5 IQR, Q3 + 1.5 IQR]\<close>, where \<open>Q1\<close>, \<open>Q3\<close> and
  \<open>IQR\<close> are computed on that column over the batch as it stands when the
  column's turn comes: the batch before any removal for the first numeric
  column (\<open>before = []\<close>), and for a later column the batch already filtered
  by the numeric columns before it.
\<close>

theorem remove_outliers_within_bounds:
  assumes "unique_labels df" and "numeric_cols df = before @ col # after"
  shows "\<exists>vs out_col.
           get_col (fold outlier_step before df) col = Some (Numeric vs) \<and>
           get_col (remove_outliers df) col = Some out_col \<and>
           col_all (\<lambda>x. within_bounds (iqr_bounds vs) (Some x)) out_col"
proof -
  from assms(2) have "col \<in> set (numeric_cols df)" by simp
  from numeric_col_lookup [OF assms(1) this] obtain vs0 where
    vs0: "get_col df col = Some (Numeric vs0)" by blast
  from fold_outlier_step_other [OF vs0, of before "\<lambda>x. True"] obtain c1 where
    c1: "get_col (fold outlier_step before df) col = Some c1" "is_numeric c1" by auto
  then obtain vs where vs: "c1 = Numeric vs" by (cases c1) auto
  define d where "d = fold outlier_step before df"
  from c1 vs have dv: "get_col d col = Some (Numeric vs)" by (simp add: d_def)
  let ?Q = "\<lambda>x. within_bounds (iqr_bounds vs) (Some x)"
  from outlier_step_own [OF dv] obtain c2 where
    c2: "get_col (outlier_step col d) col = Some c2" "col_all ?Q c2" by blast
  from fold_outlier_step_other [OF c2(1), of after ?Q] c2(2) obtain c3 where
    c3: "get_col (fold outlier_step after (outlier_step col d)) col = Some c3" "col_all ?Q c3"
    by blast
  have "remove_outliers df = fold outlier_step after (outlier_step col d)"
    by (simp add: remove_outliers_def assms(2) d_def)
  with c3 dv show ?thesis by (auto simp: d_def)
qed

theorem remove_outliers_within_bounds_witness:
  "unique_labels two_column_frame \<and>
   numeric_cols two_column_frame = [''a''] @ ''b'' # [] \<and>
   get_col (fold outlier_step [''a''] two_column_frame) ''b'' =
     Some (Numeric [Some 0, Some 0, Some 1, Some 3]) \<and>
   iqr_bounds [Some 0, Some 0, Some 1, Some 3] = Some (- 9 / 4, 15 / 4) \<and>
   get_col (remove_outliers two_column_frame) ''b'' = Some (Numeric [Some 0, Some 0, Some 1, Some 3]) \<and>
   col_all (\<lambda>x. within_bounds (Some (- 9 / 4, 15 / 4)) (Some x)) (Numeric [Some 0, Some 0, Some 1, Some 3])"
proof -
  have u: "unique_labels two_column_frame" by code_simp
  have n: "numeric_cols two_column_frame = [''a''] @ ''b'' # []" by code_simp
  have d: "get_col (fold outlier_step [''a''] two_column_frame) ''b'' =
     Some (Numeric [Some 0, Some 0, Some 1, Some 3])" by code_simp
  have b: "iqr_bounds [Some 0, Some 0, Some 1, Some 3] = Some (- 9 / 4, 15 / 4)" by code_simp
  from remove_outliers_within_bounds [OF u n] obtain vs out_col where
    r: "get_col (fold outlier_step [''a''] two_column_frame) ''b'' = Some (Numeric vs)"
       "get_col (remove_outliers two_column_frame) ''b'' = Some out_col"
       "col_all (\<lambda>x. within_bounds (iqr_bounds vs) (Some x)) out_col" by blast
  from r(1) d have vs: "vs = [Some 0, Some 0, Some 1, Some 3]" by simp
  have o: "get_col (remove_outliers two_column_frame) ''b'' = Some (Numeric [Some 0, Some 0, Some 1, Some 3])"
    by code_simp
  with r(2) have oc: "out_col = Numeric [Some 0, Some 0, Some 1, Some 3]" by simp
  from r(3) have "col_all (\<lambda>x. within_bounds (Some (- 9 / 4, 15 / 4)) (Some x)) (Numeric [Some 0, Some 0, Some 1, Some 3])"
    unfolding vs oc b .
  with u n d b o show ?thesis by blast
qed

section \<open>Properties of the record normalizer\<close>

lemma fold_invariant:
  "(\<And>x d. P d \<Longrightarrow> P (f x d)) \<Longrightarrow> P d \<Longrightarrow> P (fold f xs d)"
  by (induction xs arbitrary: d) auto

lemma set_col_same_rows:
  assumes "same_rows df d" and "col_length c = nrows d"
  shows "same_rows df (set_col name c d)"
  using assms by (auto simp: same_rows_def set_col_def well_shaped_def nrows_def list_all_iff)

lemma get_col_length:
  "well_shaped d \<Longrightarrow> get_col d name = Some c \<Longrightarrow> col_length c = nrows d"
  by (auto simp: well_shaped_def get_col_def list_all_iff dest!: map_of_SomeD)

lemma fill_numeric_same_rows: "same_rows df d \<Longrightarrow> same_rows df (fill_numeric col d)"
proof -
  assume s: "same_rows df d"
  show ?thesis
  proof (cases "get_col d col")
    case None
    with s show ?thesis by (simp add: fill_numeric_def)
  next
    case (Some c)
    show ?thesis
    proof (cases c)
      case (Numeric vs)
      from s Some have "col_length c = nrows d" by (auto simp: same_rows_def intro: get_col_length)
      with Numeric have "col_length (Numeric (fillna (median (dropna vs)) vs)) = nrows d"
        by (simp add: fillna_def)
      from set_col_same_rows [OF s this] Some Numeric show ?thesis by (simp add: fill_numeric_def)
    next
      case (Object vs)
      with s Some show ?thesis by (simp add: fill_numeric_def)
    qed
  qed
qed

lemma fill_categorical_same_rows: "same_rows df d \<Longrightarrow> same_rows df (fill_categorical col d)"
proof -
  assume s: "same_rows df d"
  show ?thesis
  proof (cases "get_col d col")
    case None
    with s show ?thesis by (simp add: fill_categorical_def)
  next
    case (Some c)
    show ?thesis
    proof (cases c)
      case (Numeric vs)
      with s Some show ?thesis by (simp add: fill_categorical_def)
    next
      case (Object vs)
      from s Some have len: "col_length c = nrows d" by (auto simp: same_rows_def intro: get_col_length)
      show ?thesis
      proof (cases "vs \<noteq> [] \<and> mode (dropna vs) \<noteq> []")
        case True
        then obtain m ms where m: "mode (dropna vs) = m # ms" by (cases "mode (dropna vs)") auto
        from len Object have "col_length (Object (fillna (Some m) vs)) = nrows d"
          by (simp add: fillna_def)
        from set_col_same_rows [OF s this] Some Object True m show ?thesis
          by (simp add: fill_categorical_def)
      next
        case False
        with s Some Object show ?thesis by (auto simp: fill_categorical_def)
      qed
    qed
  qed
qed

lemma rename_column_same_rows: "same_rows df d \<Longrightarrow> same_rows df (rename_column m d)"
  by (auto simp: same_rows_def rename_column_def well_shaped_def nrows_def list_all_iff)

text \<open>
  Claim C4.  For every input batch (a frame with unique labels in which every
  column has one entry per row) the record normalizer, missing-value imputation
  followed by column-name standardization, returns a frame with the same number
  of rows: the index is unchanged, no column is lost and every column still has
  one entry per row.
\<close>

theorem normalizer_keeps_rows:
  assumes "unique_labels df" and "well_shaped df"
  shows "nrows (standardize_columns (handle_missing_values df)) = nrows df \<and>
         index (standardize_columns (handle_missing_values df)) = index df \<and>
         well_shaped (standardize_columns (handle_missing_values df)) \<and>
         length (columns (standardize_columns (handle_missing_values df))) = length (columns df)"
proof -
  from assms(2) have s0: "same_rows df df" by (simp add: same_rows_def)
  have s1: "same_rows df (fold fill_numeric (numeric_cols df) df)"
    by (rule fold_invariant) (auto intro: fill_numeric_same_rows s0)
  have s2: "same_rows df (handle_missing_values df)"
    unfolding handle_missing_values_def Let_def
    by (rule fold_invariant) (auto intro: fill_categorical_same_rows s1)
  have "same_rows df (standardize_columns (handle_missing_values df))"
    unfolding standardize_columns_def
    by (rule fold_invariant) (auto intro: rename_column_same_rows s2)
  then show ?thesis by (simp add: same_rows_def nrows_def)
qed

theorem normalizer_keeps_rows_witness:
  "unique_labels raw_frame \<and> well_shaped raw_frame \<and> nrows raw_frame = 4 \<and>
   nrows (standardize_columns (handle_missing_values raw_frame)) = 4 \<and>
   labels (standardize_columns (handle_missing_values raw_frame)) =
     [''county'', ''year'', ''production_tonnes'']"
proof -
  have u: "unique_labels raw_frame" by code_simp
  have w: "well_shaped raw_frame" by code_simp
  have n: "nrows raw_frame = 4" by code_simp
  have l: "labels (standardize_columns (handle_missing_values raw_frame)) =
     [''county'', ''year'', ''production_tonnes'']" by code_simp
  from normalizer_keeps_rows [OF u w] u w n l show ?thesis by simp
qed

section \<open>Properties of the yield estimator\<close>










end
